theory Spec2Isabelle
  imports Complex_Main
begin

section \<open>Values, errors and the array primitives used by the notebook\<close>

text \<open>
  The notebook \<^verbatim>\<open>co2eq_analysis.ipynb\<close> works on numpy arrays of floats. The model keeps
  the shape, the indexing and the error behaviour of every operation and idealises the
  arithmetic on finite values to exact real arithmetic: rounding and overflow are outside
  the model, and so is the sign of a zero. What numpy produces when it divides by zero
  (an infinity or a NaN, with a warning and no exception) is kept, since HOL's own
  \<open>x / 0 = 0\<close> would hide it. The theorems below are therefore about shapes, indices,
  errors and which formula a cell holds; a statement whose truth turns on the rounding of
  float64 (an exact equality between separately rounded results, a float sum being zero
  or overflowing) is not made here.
\<close>

datatype npfloat = Num real | PInf | NInf | NaN

fun np_neg :: "npfloat \<Rightarrow> npfloat" where
  "np_neg (Num a) = Num (- a)"
| "np_neg PInf = NInf"
| "np_neg NInf = PInf"
| "np_neg NaN = NaN"

fun np_add :: "npfloat \<Rightarrow> npfloat \<Rightarrow> npfloat" where
  "np_add (Num a) (Num b) = Num (a + b)"
| "np_add NaN y = NaN"
| "np_add x NaN = NaN"
| "np_add PInf NInf = NaN"
| "np_add NInf PInf = NaN"
| "np_add PInf y = PInf"
| "np_add NInf y = NInf"
| "np_add x PInf = PInf"
| "np_add x NInf = NInf"

fun np_mul :: "npfloat \<Rightarrow> npfloat \<Rightarrow> npfloat" where
  "np_mul (Num a) (Num b) = Num (a * b)"
| "np_mul NaN y = NaN"
| "np_mul x NaN = NaN"
| "np_mul (Num a) y = (if a = 0 then NaN else if 0 < a then y else np_neg y)"
| "np_mul x (Num b) = (if b = 0 then NaN else if 0 < b then x else np_neg x)"
| "np_mul PInf y = y"
| "np_mul NInf y = np_neg y"

fun np_div :: "npfloat \<Rightarrow> npfloat \<Rightarrow> npfloat" where
  "np_div (Num a) (Num b) =
     (if b \<noteq> 0 then Num (a / b) else if a = 0 then NaN else if 0 < a then PInf else NInf)"
| "np_div NaN y = NaN"
| "np_div x NaN = NaN"
| "np_div (Num a) y = Num 0"
| "np_div x (Num b) = (if 0 \<le> b then x else np_neg x)"
| "np_div x y = NaN"

text \<open>\<^verbatim>\<open>np.sum\<close> along an axis adds the entries one after the other.\<close>

definition np_sum :: "npfloat list \<Rightarrow> npfloat" where
  "np_sum xs = foldl np_add (Num 0) xs"

datatype error = IOError | ValueError | IndexError | TypeError

type_synonym matrix = "real list list"
type_synonym npmatrix = "npfloat list list"

text \<open>
  A bound of a Python slice on a sequence of length \<open>n\<close>: a negative bound counts from
  the end, and every bound is clamped to \<open>0..n\<close>.
\<close>

definition slice_bound :: "nat \<Rightarrow> int \<Rightarrow> nat" where
  "slice_bound n i = (if i < 0 then nat (int n + i) else min (nat i) n)"

definition py_slice :: "'a list \<Rightarrow> int \<Rightarrow> int \<Rightarrow> 'a list" where
  "py_slice xs lo hi =
     (let a = slice_bound (length xs) lo; b = slice_bound (length xs) hi
      in take (b - a) (drop a xs))"

definition py_slice_from :: "'a list \<Rightarrow> int \<Rightarrow> 'a list" where
  "py_slice_from xs lo = drop (slice_bound (length xs) lo) xs"

definition py_slice_to :: "'a list \<Rightarrow> int \<Rightarrow> 'a list" where
  "py_slice_to xs hi = take (slice_bound (length xs) hi) xs"

definition py_range :: "int \<Rightarrow> nat list" where
  "py_range n = [0..<nat n]"

text \<open>Indexing with an integer: negative indices count from the end, others raise.\<close>

definition py_index :: "'a list \<Rightarrow> int \<Rightarrow> error + 'a" where
  "py_index xs i =
     (if 0 \<le> i \<and> i < int (length xs) then Inr (xs ! nat i)
      else if i < 0 \<and> - int (length xs) \<le> i then Inr (xs ! nat (int (length xs) + i))
      else Inl IndexError)"

text \<open>
  Indexing a one-dimensional array with a sequence of (non-negative) indices: every
  index is checked against the length.
\<close>

definition fancy_index :: "'a list \<Rightarrow> nat list \<Rightarrow> error + 'a list" where
  "fancy_index xs idx =
     (if list_all (\<lambda>i. i < length xs) idx then Inr (map (nth xs) idx) else Inl IndexError)"

definition lift :: "matrix \<Rightarrow> npmatrix" where
  "lift M = map (map Num) M"

text \<open>A matrix divided by one of its own rows, column by column.\<close>

definition div_rows :: "npmatrix \<Rightarrow> npfloat list \<Rightarrow> npmatrix" where
  "div_rows M d = map (\<lambda>r. map2 np_div r d) M"

text \<open>
  A matrix with \<open>c\<close> columns times a one-dimensional array \<open>v\<close>, by numpy's broadcasting:
  the lengths agree, or one of them is 1 and is stretched, or the product is refused.
\<close>

definition bcast_mul :: "nat \<Rightarrow> npmatrix \<Rightarrow> real list \<Rightarrow> error + npmatrix" where
  "bcast_mul c M v =
     (if length v = c then Inr (map (\<lambda>r. map2 (\<lambda>x e. np_mul x (Num e)) r v) M)
      else if length v = 1 then Inr (map (map (\<lambda>x. np_mul x (Num (hd v)))) M)
      else if c = 1 then Inr (map (\<lambda>r. map (\<lambda>e. np_mul (hd r) (Num e)) v) M)
      else Inl ValueError)"

section \<open>The converters that normalise by the CO2 row\<close>

text \<open>
  \<^verbatim>\<open>rf_co2eq\<close>: the columns \<open>H:-1\<close> of the forcing table divided by its row 1, times
  \<^verbatim>\<open>CO2_emissions[:len(years)-H-1]\<close>; the year indices are \<^verbatim>\<open>range(len(years)-H-1)\<close>.
  Reading row 1 raises when the table has fewer than two rows.
\<close>

definition rf_co2eq ::
  "int \<Rightarrow> matrix \<Rightarrow> matrix \<Rightarrow> real list \<Rightarrow> real list \<Rightarrow> error + (npmatrix \<times> nat list)" where
  "rf_co2eq H forcing_profiles temperature_profiles years CO2_emissions =
     (let rf_lst = forcing_profiles in
      if length rf_lst < 2 then Inl IndexError
      else
        let d = py_slice (rf_lst ! 1) H (- 1);
            rfr_lst = div_rows (lift (map (\<lambda>r. py_slice r H (- 1)) rf_lst)) (map Num d)
        in case bcast_mul (length d) rfr_lst
                  (py_slice_to CO2_emissions (int (length years) - H - 1)) of
             Inl e \<Rightarrow> Inl e
           | Inr rf_CO2_eq \<Rightarrow> Inr (rf_CO2_eq, py_range (int (length years) - H - 1)))"

text \<open>
  The table \<^verbatim>\<open>[[np.sum(profiles[j, i:i + H]) for i in range(n)] for j in range(7)]\<close>
  of forward window sums, shared by \<^verbatim>\<open>gwp_co2eq\<close>, \<^verbatim>\<open>egwp_co2eq\<close> and \<^verbatim>\<open>atr_co2eq\<close>.
  A row of the profiles is read only inside the inner loop, so a table with fewer than
  seven rows raises exactly when \<open>n\<close> is positive.
\<close>

definition window_sums :: "int \<Rightarrow> matrix \<Rightarrow> nat \<Rightarrow> matrix" where
  "window_sums H profiles n =
     map (\<lambda>j. map (\<lambda>i. sum_list (py_slice (profiles ! j) (int i) (int i + H))) [0..<n])
       [0..<7]"

definition mul_rows :: "npmatrix \<Rightarrow> real list \<Rightarrow> npmatrix" where
  "mul_rows M v = map (\<lambda>r. map2 (\<lambda>x e. np_mul x (Num e)) r v) M"

definition gwp_lst :: "int \<Rightarrow> matrix \<Rightarrow> real list \<Rightarrow> npmatrix" where
  "gwp_lst H forcing_profiles years =
     (let agwp_lst = window_sums H forcing_profiles (nat (int (length years) - H))
      in div_rows (lift agwp_lst) (map Num (agwp_lst ! 1)))"

definition gwp_co2eq ::
  "int \<Rightarrow> matrix \<Rightarrow> matrix \<Rightarrow> real list \<Rightarrow> real list \<Rightarrow> error + (npmatrix \<times> nat list)" where
  "gwp_co2eq H forcing_profiles temperature_profiles years CO2_emissions =
     (if 0 < nat (int (length years) - H) \<and> length forcing_profiles < 7 then Inl IndexError
      else
        case fancy_index CO2_emissions (py_range (int (length years) - H)) of
          Inl e \<Rightarrow> Inl e
        | Inr emis \<Rightarrow>
            Inr (mul_rows (gwp_lst H forcing_profiles years) emis,
                 py_range (int (length years) - H)))"

text \<open>
  \<^verbatim>\<open>egwp_co2eq\<close>: the window sums of rows 1 to 6 are scaled by the efficacies, row 0 is
  replaced by the sum of the scaled rows, and the result is normalised by row 1.
\<close>

definition efficacies :: "real list" where
  "efficacies = [1, 114 / 100, 137 / 100, 118 / 100, 59 / 100, 1]"

definition col_sums :: "matrix \<Rightarrow> nat \<Rightarrow> real list" where
  "col_sums M n = map (\<lambda>c. sum_list (map (\<lambda>r. r ! c) M)) [0..<n]"

definition aegwp_lst :: "int \<Rightarrow> matrix \<Rightarrow> real list \<Rightarrow> matrix" where
  "aegwp_lst H forcing_profiles years =
     (let n = nat (int (length years) - H);
          wsums = window_sums H forcing_profiles n;
          scaled = map2 (\<lambda>r e. map (\<lambda>x. x * e) r) (tl wsums) efficacies
      in col_sums scaled n # scaled)"

definition egwp_lst :: "int \<Rightarrow> matrix \<Rightarrow> real list \<Rightarrow> npmatrix" where
  "egwp_lst H forcing_profiles years =
     (let a = aegwp_lst H forcing_profiles years
      in div_rows (lift a) (map Num (a ! 1)))"

definition egwp_co2eq ::
  "int \<Rightarrow> matrix \<Rightarrow> matrix \<Rightarrow> real list \<Rightarrow> real list \<Rightarrow> error + (npmatrix \<times> nat list)" where
  "egwp_co2eq H forcing_profiles temperature_profiles years CO2_emissions =
     (if 0 < nat (int (length years) - H) \<and> length forcing_profiles < 7 then Inl IndexError
      else
        case fancy_index CO2_emissions (py_range (int (length years) - H)) of
          Inl e \<Rightarrow> Inl e
        | Inr emis \<Rightarrow>
            Inr (mul_rows (egwp_lst H forcing_profiles years) emis,
                 py_range (int (length years) - H)))"

text \<open>
  \<^verbatim>\<open>gtp_co2eq\<close>: the columns \<open>H:\<close> of the temperature table divided by its row 1, times
  \<^verbatim>\<open>CO2_emissions[:len(years)-H]\<close>.
\<close>

definition gtp_co2eq ::
  "int \<Rightarrow> matrix \<Rightarrow> matrix \<Rightarrow> real list \<Rightarrow> real list \<Rightarrow> error + (npmatrix \<times> nat list)" where
  "gtp_co2eq H forcing_profiles temperature_profiles years CO2_emissions =
     (let agtp_lst = temperature_profiles in
      if length agtp_lst < 2 then Inl IndexError
      else
        let d = py_slice_from (agtp_lst ! 1) H;
            gtp_lst = div_rows (lift (map (\<lambda>r. py_slice_from r H) agtp_lst)) (map Num d)
        in case bcast_mul (length d) gtp_lst
                  (py_slice_to CO2_emissions (int (length years) - H)) of
             Inl e \<Rightarrow> Inl e
           | Inr gtp_CO2_eq \<Rightarrow> Inr (gtp_CO2_eq, py_range (int (length years) - H)))"

text \<open>
  \<^verbatim>\<open>atr_co2eq\<close>: the window sums of the temperature table divided by \<open>H\<close> (a float
  divided by an integer: no exception when \<open>H\<close> is 0), normalised by row 1.
\<close>

definition atr_lst :: "int \<Rightarrow> matrix \<Rightarrow> real list \<Rightarrow> npmatrix" where
  "atr_lst H temperature_profiles years =
     map (map (\<lambda>x. np_div (Num x) (Num (of_int H))))
       (window_sums H temperature_profiles (nat (int (length years) - H)))"

definition atrp_lst :: "int \<Rightarrow> matrix \<Rightarrow> real list \<Rightarrow> npmatrix" where
  "atrp_lst H temperature_profiles years =
     (let a = atr_lst H temperature_profiles years in div_rows a (a ! 1))"

definition atr_co2eq ::
  "int \<Rightarrow> matrix \<Rightarrow> matrix \<Rightarrow> real list \<Rightarrow> real list \<Rightarrow> error + (npmatrix \<times> nat list)" where
  "atr_co2eq H forcing_profiles temperature_profiles years CO2_emissions =
     (if 0 < nat (int (length years) - H) \<and> length temperature_profiles < 7
      then Inl IndexError
      else
        case fancy_index CO2_emissions (py_range (int (length years) - H)) of
          Inl e \<Rightarrow> Inl e
        | Inr emis \<Rightarrow>
            Inr (mul_rows (atrp_lst H temperature_profiles years) emis,
                 py_range (int (length years) - H)))"

section \<open>GWP* and EGWP*\<close>

text \<open>
  The constants of \<^verbatim>\<open>gwps_co2eq\<close> and \<^verbatim>\<open>egwps_co2eq\<close>: the window \<^verbatim>\<open>dt = 20\<close>, the weight
  \<^verbatim>\<open>s = 0.25\<close> and \<^verbatim>\<open>g = (1 - np.exp(-s / (1 - s))) / s\<close>.
\<close>

definition gwps_dt :: nat where
  "gwps_dt = 20"

definition gwps_s :: real where
  "gwps_s = 25 / 100"

definition gwps_g :: real where
  "gwps_g = (1 - exp (- gwps_s / (1 - gwps_s))) / gwps_s"

text \<open>
  \<^verbatim>\<open>dFdt\<close>: the columns \<open>dt..T-1\<close> minus the columns \<open>0..T-dt-1\<close> of every row, divided
  by \<open>dt\<close> and by 1000. \<^verbatim>\<open>F_av\<close>: for the rows 0 to 6 and every \<open>i\<close> in \<open>dt..T-1\<close>,
  the sum of the slice \<open>i - dt + 1 : i + 1\<close> divided by \<open>dt\<close>, and the whole table
  divided by 1000.
\<close>

definition dFdt :: "matrix \<Rightarrow> nat \<Rightarrow> matrix" where
  "dFdt forcing_profiles T =
     map (\<lambda>r. map (\<lambda>c. (r ! (gwps_dt + c) - r ! c) / real gwps_dt / 1000) [0..<T - gwps_dt])
       forcing_profiles"

definition F_av :: "matrix \<Rightarrow> nat \<Rightarrow> matrix" where
  "F_av forcing_profiles T =
     map (\<lambda>j. map (\<lambda>i. sum_list (py_slice (forcing_profiles ! j)
                                   (int i - int gwps_dt + 1) (int i + 1))
                         / real gwps_dt / 1000) [gwps_dt..<T])
       [0..<7]"

text \<open>
  The table \<^verbatim>\<open>g * ((1 - s) * dFdt * H / agwp_co2 + s * F_av / agwp_co2)\<close> as it stands
  before row 1 and row 0 are overwritten.
\<close>

definition gwps_raw :: "int \<Rightarrow> matrix \<Rightarrow> nat \<Rightarrow> real \<Rightarrow> npmatrix" where
  "gwps_raw H forcing_profiles T agwp_co2 =
     map (\<lambda>j. map (\<lambda>c.
            np_mul (Num gwps_g)
              (np_add
                 (np_div (Num ((1 - gwps_s) * (dFdt forcing_profiles T ! j ! c) * of_int H))
                    (Num agwp_co2))
                 (np_div (Num (gwps_s * (F_av forcing_profiles T ! j ! c))) (Num agwp_co2))))
          [0..<T - gwps_dt])
       [0..<7]"

text \<open>
  The lines that the two functions share, up to that table. The AGWP table is the array
  read from \<^verbatim>\<open>agwph_co2_file\<close>, a parameter here. The checks follow the order in which
  numpy meets them: row 0 of the profiles, the entry \<open>H - 1\<close> of the AGWP table, the
  columns \<open>dt..T-1\<close>, the rows 0 to 6 (read only when there is a column to compute), and
  the shapes of \<^verbatim>\<open>dFdt\<close> and \<^verbatim>\<open>F_av\<close>, which must agree or broadcast.
\<close>

definition gwps_prepare ::
  "int \<Rightarrow> matrix \<Rightarrow> real list \<Rightarrow> real list \<Rightarrow> error + (npmatrix \<times> nat list)" where
  "gwps_prepare H forcing_profiles years agwph_co2 =
     (if length forcing_profiles = 0 then Inl IndexError
      else
        let yr_idx1 = [gwps_dt..<length (forcing_profiles ! 0)] in
        case py_index agwph_co2 (H - 1) of
          Inl e \<Rightarrow> Inl e
        | Inr a \<Rightarrow>
            let agwp_co2 = a * 10 ^ 9; T = length years in
            if gwps_dt < T \<and> length (forcing_profiles ! 0) < T then Inl IndexError
            else if gwps_dt < T \<and> length forcing_profiles < 7 then Inl IndexError
            else if length forcing_profiles \<noteq> 7 \<and> length forcing_profiles \<noteq> 1
              then Inl ValueError
            else Inr (gwps_raw H forcing_profiles T agwp_co2, yr_idx1))"

text \<open>
  An array read by \<^verbatim>\<open>np.loadtxt\<close> or built by indexing is a scalar (zero-dimensional)
  or a vector. Assigning one to a row of length \<open>n\<close> broadcasts it: a scalar and a
  vector of length 1 fill the row, a vector of length \<open>n\<close> is copied, any other is refused.
\<close>

datatype ndarray = Scalar real | Vector "real list"

fun broadcast_to :: "nat \<Rightarrow> ndarray \<Rightarrow> error + real list" where
  "broadcast_to n (Scalar v) = Inr (replicate n v)"
| "broadcast_to n (Vector xs) =
     (if length xs = n then Inr xs
      else if length xs = 1 then Inr (replicate n (hd xs))
      else Inl ValueError)"

definition np_col_sums :: "npmatrix \<Rightarrow> nat \<Rightarrow> npfloat list" where
  "np_col_sums M n = map (\<lambda>c. np_sum (map (\<lambda>r. r ! c) M)) [0..<n]"

definition gwps_co2eq ::
  "int \<Rightarrow> matrix \<Rightarrow> matrix \<Rightarrow> real list \<Rightarrow> real list \<Rightarrow> real list
     \<Rightarrow> error + (npmatrix \<times> nat list)" where
  "gwps_co2eq H forcing_profiles temperature_profiles years CO2_emissions agwph_co2 =
     (case gwps_prepare H forcing_profiles years agwph_co2 of
        Inl e \<Rightarrow> Inl e
      | Inr (raw, yr_idx1) \<Rightarrow>
          (case fancy_index CO2_emissions yr_idx1 of
             Inl e \<Rightarrow> Inl e
           | Inr emis \<Rightarrow>
               (case broadcast_to (length years - gwps_dt) (Vector emis) of
                  Inl e \<Rightarrow> Inl e
                | Inr row1 \<Rightarrow>
                    let m1 = raw[1 := map Num row1];
                        m0 = m1[0 := np_col_sums (tl m1) (length years - gwps_dt)]
                    in Inr (m0, yr_idx1))))"

definition egwps_co2eq ::
  "int \<Rightarrow> matrix \<Rightarrow> matrix \<Rightarrow> real list \<Rightarrow> real list \<Rightarrow> real list
     \<Rightarrow> error + (npmatrix \<times> nat list)" where
  "egwps_co2eq H forcing_profiles temperature_profiles years CO2_emissions agwph_co2 =
     (case gwps_prepare H forcing_profiles years agwph_co2 of
        Inl e \<Rightarrow> Inl e
      | Inr (raw, yr_idx1) \<Rightarrow>
          (case fancy_index CO2_emissions yr_idx1 of
             Inl e \<Rightarrow> Inl e
           | Inr emis \<Rightarrow>
               (case broadcast_to (length years - gwps_dt) (Vector emis) of
                  Inl e \<Rightarrow> Inl e
                | Inr row1 \<Rightarrow>
                    let m1 = raw[1 := map Num row1];
                        m2 = hd m1 # map2 (\<lambda>r e. map (\<lambda>x. np_mul x (Num e)) r) (tl m1) efficacies;
                        m0 = m2[0 := np_col_sums (tl m2) (length years - gwps_dt)]
                    in Inr (m0, yr_idx1))))"

section \<open>The response loader\<close>

text \<open>
  A file is the table of numbers that follows its two header lines, or is malformed; the
  file system maps a path to a file. \<^verbatim>\<open>np.loadtxt(path, skiprows=2, usecols=col)\<close> fails
  on a missing or malformed file and on a row without the column, and squeezes its result:
  a file with a single row gives a scalar, any other number of rows a vector.
\<close>

datatype datafile = Malformed | Table "real list list"

type_synonym filesystem = "string \<Rightarrow> datafile option"

definition loadtxt :: "filesystem \<Rightarrow> string \<Rightarrow> nat \<Rightarrow> error + ndarray" where
  "loadtxt fs path col =
     (case fs path of
        None \<Rightarrow> Inl IOError
      | Some Malformed \<Rightarrow> Inl ValueError
      | Some (Table rows) \<Rightarrow>
          if list_all (\<lambda>r. col < length r) rows
          then (case rows of
                  [r] \<Rightarrow> Inr (Scalar (r ! col))
                | _ \<Rightarrow> Inr (Vector (map (\<lambda>r. r ! col) rows)))
          else Inl ValueError)"

definition emission_species :: "string list" where
  "emission_species = [''CO2'', ''H2O'', ''O3'', ''CH4'', ''Cont'', ''PMO'']"

definition rf_name :: "string \<Rightarrow> string" where
  "rf_name sp = ''RF_'' @ sp @ ''_taumean_rfmean.txt''"

definition dt_name :: "string \<Rightarrow> string" where
  "dt_name sp = ''dT_'' @ sp @ ''_taumean_rfmean_lammean.txt''"

text \<open>
  The loop of \<^verbatim>\<open>load_rf_dt\<close> over the species, from index \<open>i\<close> on: both files are read,
  then row \<open>i + 1\<close> of each array (of \<open>T\<close> columns) is assigned.
\<close>

fun populate ::
  "filesystem \<Rightarrow> string \<Rightarrow> nat \<Rightarrow> string list \<Rightarrow> nat \<Rightarrow> matrix \<times> matrix
     \<Rightarrow> error + (matrix \<times> matrix)" where
  "populate fs directory T [] i (rf_arr, dt_arr) = Inr (rf_arr, dt_arr)"
| "populate fs directory T (sp # sps) i (rf_arr, dt_arr) =
     (case loadtxt fs (directory @ rf_name sp) 1 of
        Inl e \<Rightarrow> Inl e
      | Inr rf_lst \<Rightarrow>
          (case loadtxt fs (directory @ dt_name sp) 1 of
             Inl e \<Rightarrow> Inl e
           | Inr dt_lst \<Rightarrow>
               (case broadcast_to T rf_lst of
                  Inl e \<Rightarrow> Inl e
                | Inr rf_row \<Rightarrow>
                    (case broadcast_to T dt_lst of
                       Inl e \<Rightarrow> Inl e
                     | Inr dt_row \<Rightarrow>
                         populate fs directory T sps (i + 1)
                           (rf_arr[i + 1 := rf_row], dt_arr[i + 1 := dt_row])))))"

definition load_rf_dt :: "filesystem \<Rightarrow> string \<Rightarrow> error + (matrix \<times> matrix \<times> real list)" where
  "load_rf_dt fs directory =
     (case loadtxt fs (directory @ ''RF_CO2_taumean_rfmean.txt'') 0 of
        Inl e \<Rightarrow> Inl e
      | Inr (Scalar y) \<Rightarrow> Inl TypeError
      | Inr (Vector years) \<Rightarrow>
          (let T = length years in
           case populate fs directory T emission_species 0
                  (replicate 7 (replicate T 0), replicate 7 (replicate T 0)) of
             Inl e \<Rightarrow> Inl e
           | Inr (rf_arr, dt_arr) \<Rightarrow>
               Inr (rf_arr[0 := col_sums rf_arr T], dt_arr[0 := col_sums dt_arr T], years)))"

section \<open>Example data\<close>

text \<open>
  A small scenario used to instantiate the theorems below: seven rows over four years,
  the total row being the sum of the six species rows.
\<close>

definition ex_profiles :: matrix where
  "ex_profiles =
     [[12, 18, 24, 30], [2, 3, 4, 5], [1, 2, 3, 4], [3, 4, 5, 6],
      [1, 1, 1, 1], [4, 6, 8, 10], [1, 2, 3, 4]]"

definition ex_years :: "real list" where
  "ex_years = [2000, 2001, 2002, 2003]"

definition ex_emissions :: "real list" where
  "ex_emissions = [100, 110, 120, 130]"

text \<open>
  The value that a same-year pairing would give for species \<open>i\<close> and year \<open>t\<close>: the forcing
  ratio of year \<open>t\<close> times the CO2 emission of year \<open>t\<close>. It is compared with what
  \<^verbatim>\<open>rf_co2eq\<close> returns, listed in full for the example scenario with \<open>H = 1\<close>.
\<close>

definition same_year_rfi :: "matrix \<Rightarrow> real list \<Rightarrow> nat \<Rightarrow> nat \<Rightarrow> npfloat" where
  "same_year_rfi RF CO2emissions i t =
     np_mul (np_div (Num (RF ! i ! t)) (Num (RF ! 1 ! t))) (Num (CO2emissions ! t))"

definition ex_rfi_result :: npmatrix where
  "ex_rfi_result =
     [[Num 600, Num 660], [Num 100, Num 110], [Num (200 / 3), Num (165 / 2)],
      [Num (400 / 3), Num (275 / 2)], [Num (100 / 3), Num (55 / 2)], [Num 200, Num 220],
      [Num (200 / 3), Num (165 / 2)]]"

text \<open>
  The invariant of the data model on a response table with \<open>T\<close> columns: row 0 is the
  sum of the rows 1 to 6 at every time step; and the same statement for one column of a
  result.
\<close>

definition total_is_sum :: "matrix \<Rightarrow> nat \<Rightarrow> bool" where
  "total_is_sum M T =
     list_all (\<lambda>t. M ! 0 ! t = sum_list (map (\<lambda>i. M ! i ! t) [1..<7])) [0..<T]"

definition row0_is_sum :: "npmatrix \<Rightarrow> nat \<Rightarrow> bool" where
  "row0_is_sum out c = (out ! 0 ! c = np_sum (map (\<lambda>i. out ! i ! c) [1..<7]))"

text \<open>
  A scenario of 22 years, long enough for the window of GWP*, with an AGWP table of 100
  entries.
\<close>

definition ex_long_profiles :: matrix where
  "ex_long_profiles = map (\<lambda>j. map (\<lambda>t. real (Suc j) * real t) [0..<22]) [0..<7]"

definition ex_long_years :: "real list" where
  "ex_long_years = map (\<lambda>t. 2000 + real t) [0..<22]"

definition ex_long_emissions :: "real list" where
  "ex_long_emissions = map (\<lambda>t. 100 + real t) [0..<22]"

definition ex_agwph :: "real list" where
  "ex_agwph = replicate 100 1"

text \<open>
  Two directories. In \<open>ex_fs\<close> every file has two rows except the H2O forcing file, which
  has one; in \<open>ex_bad_fs\<close> the O3 temperature file has three rows.
\<close>

definition ex_fs :: filesystem where
  "ex_fs path =
     (if path = ''data/RF_H2O_taumean_rfmean.txt'' then Some (Table [[2000, 5]])
      else if path \<in> set (map (\<lambda>sp. ''data/'' @ rf_name sp) emission_species
                          @ map (\<lambda>sp. ''data/'' @ dt_name sp) emission_species)
        then Some (Table [[2000, 1], [2001, 2]])
      else None)"

definition ex_bad_fs :: filesystem where
  "ex_bad_fs path =
     (if path = ''data/dT_O3_taumean_rfmean_lammean.txt''
        then Some (Table [[2000, 1], [2001, 2], [2002, 3]])
      else if path \<in> set (map (\<lambda>sp. ''data/'' @ rf_name sp) emission_species
                          @ map (\<lambda>sp. ''data/'' @ dt_name sp) emission_species)
        then Some (Table [[2000, 1], [2001, 2]])
      else None)"

section \<open>Slices and row operations\<close>

lemma slice_bound_nonneg: "0 \<le> i \<Longrightarrow> slice_bound n i = min (nat i) n"
  by (simp add: slice_bound_def)

lemma slice_bound_int [simp]: "slice_bound n (int k) = min k n"
  by (simp add: slice_bound_def)

lemma slice_bound_minus1 [simp]: "slice_bound n (- 1) = n - 1"
  by (simp add: slice_bound_def)

lemma slice_bound_le: "slice_bound n i \<le> n"
  by (auto simp: slice_bound_def)

lemma length_py_slice:
  "length (py_slice xs lo hi) =
     min (slice_bound (length xs) hi) (length xs) - slice_bound (length xs) lo"
  by (simp add: py_slice_def Let_def)

lemma nth_py_slice:
  "c < length (py_slice xs lo hi) \<Longrightarrow>
     py_slice xs lo hi ! c = xs ! (slice_bound (length xs) lo + c)"
  using slice_bound_le [of "length xs" lo] by (simp add: py_slice_def Let_def)

lemma length_div_rows [simp]: "length (div_rows M d) = length M"
  by (simp add: div_rows_def)

lemma nth_div_rows: "j < length M \<Longrightarrow> div_rows M d ! j = map2 np_div (M ! j) d"
  by (simp add: div_rows_def)

lemma length_lift [simp]: "length (lift M) = length M"
  by (simp add: lift_def)

lemma nth_lift: "j < length M \<Longrightarrow> lift M ! j = map Num (M ! j)"
  by (simp add: lift_def)

lemma length_mul_rows [simp]: "length (mul_rows M v) = length M"
  by (simp add: mul_rows_def)

lemma nth_mul_rows:
  "j < length M \<Longrightarrow> mul_rows M v ! j = map2 (\<lambda>x e. np_mul x (Num e)) (M ! j) v"
  by (simp add: mul_rows_def)

lemma sum_list_py_slice:
  fixes xs :: "real list"
  assumes "0 \<le> lo" and "lo \<le> hi" and "nat hi \<le> length xs"
  shows "sum_list (py_slice xs lo hi) = (\<Sum>k = nat lo..<nat hi. xs ! k)"
proof -
  let ?a = "nat lo" and ?b = "nat hi"
  have ab: "?a \<le> ?b" using assms by simp
  have sl: "py_slice xs lo hi = take (?b - ?a) (drop ?a xs)"
    using assms by (simp add: py_slice_def Let_def slice_bound_nonneg min_def)
  have len: "length (take (?b - ?a) (drop ?a xs)) = ?b - ?a"
    using assms ab by simp
  have "sum_list (take (?b - ?a) (drop ?a xs)) = (\<Sum>i = 0..<?b - ?a. take (?b - ?a) (drop ?a xs) ! i)"
    by (simp only: sum_list_sum_nth len)
  also have "\<dots> = (\<Sum>i = 0..<?b - ?a. xs ! (i + ?a))"
    using assms ab by (intro sum.cong) (auto simp: add.commute)
  also have "\<dots> = (\<Sum>k = 0 + ?a..<(?b - ?a) + ?a. xs ! k)"
    by (rule sum.shift_bounds_nat_ivl [symmetric])
  also have "\<dots> = (\<Sum>k = ?a..<?b. xs ! k)"
    using ab by simp
  finally show ?thesis using sl by simp
qed

lemma length_window_sums [simp]: "length (window_sums H M n) = 7"
  by (simp add: window_sums_def)

lemma nth_window_sums:
  "j < 7 \<Longrightarrow> window_sums H M n ! j = map (\<lambda>i. sum_list (py_slice (M ! j) (int i) (int i + H))) [0..<n]"
  by (simp add: window_sums_def)

lemma window_sums_cell:
  "j < 7 \<Longrightarrow> c < n \<Longrightarrow> window_sums H M n ! j ! c = sum_list (py_slice (M ! j) (int c) (int c + H))"
  by (simp add: window_sums_def)

lemma bcast_mul_eq: "length v = c \<Longrightarrow> bcast_mul c M v = Inr (mul_rows M v)"
  by (simp add: bcast_mul_def mul_rows_def)

lemma rf_co2eq_cells:
  assumes "2 \<le> length fp" and "\<forall>r\<in>set fp. length r = T" and "length years = T"
    and "0 \<le> H" and "H < int T" and "T - nat H - 1 \<le> length co2"
  shows "\<exists>out. rf_co2eq H fp tp years co2 = Inr (out, [0..<T - nat H - 1]) \<and>
           length out = length fp \<and>
           (\<forall>i<length fp. length (out ! i) = T - nat H - 1 \<and>
              (\<forall>j<T - nat H - 1. out ! i ! j =
                 np_mul (np_div (Num (fp ! i ! (nat H + j))) (Num (fp ! 1 ! (nat H + j))))
                   (Num (co2 ! j))))"
proof -
  let ?n = "T - nat H - 1"
  let ?A = "lift (map (\<lambda>r. py_slice r H (- 1)) fp)"
  let ?d = "py_slice (fp ! 1) H (- 1)"
  have len: "\<And>i. i < length fp \<Longrightarrow> length (fp ! i) = T"
    using assms(2) by simp
  have sl: "\<And>i. i < length fp \<Longrightarrow> length (py_slice (fp ! i) H (- 1)) = ?n"
    using assms(4,5) by (simp add: length_py_slice len slice_bound_nonneg)
  have nth: "\<And>i j. i < length fp \<Longrightarrow> j < ?n \<Longrightarrow> py_slice (fp ! i) H (- 1) ! j = fp ! i ! (nat H + j)"
    using assms(4,5) sl by (simp add: nth_py_slice len slice_bound_nonneg)
  have one: "1 < length fp" using assms(1) by simp
  have d: "length ?d = ?n" using sl [OF one] .
  have e: "py_slice_to co2 (int (length years) - H - 1) = take ?n co2"
    using assms(3,4,5,6) by (simp add: py_slice_to_def slice_bound_nonneg nat_diff_distrib)
  have e': "length (take ?n co2) = ?n" using assms(6) by simp
  have run: "rf_co2eq H fp tp years co2 = Inr (mul_rows (div_rows ?A (map Num ?d)) (take ?n co2), [0..<?n])"
    using assms(1,3,4,5) d e e'
    by (simp add: rf_co2eq_def Let_def bcast_mul_eq py_range_def nat_diff_distrib)
  have cells: "\<forall>i<length fp. length (mul_rows (div_rows ?A (map Num ?d)) (take ?n co2) ! i) = ?n \<and>
      (\<forall>j<?n. mul_rows (div_rows ?A (map Num ?d)) (take ?n co2) ! i ! j =
          np_mul (np_div (Num (fp ! i ! (nat H + j))) (Num (fp ! 1 ! (nat H + j)))) (Num (co2 ! j)))"
  proof (intro allI impI conjI)
    fix i assume i: "i < length fp"
    show "length (mul_rows (div_rows ?A (map Num ?d)) (take ?n co2) ! i) = ?n"
      using i sl [OF i] d e' by (simp add: nth_mul_rows nth_div_rows nth_lift)
    fix j assume j: "j < ?n"
    show "mul_rows (div_rows ?A (map Num ?d)) (take ?n co2) ! i ! j =
          np_mul (np_div (Num (fp ! i ! (nat H + j))) (Num (fp ! 1 ! (nat H + j)))) (Num (co2 ! j))"
      using i j sl [OF i] d e' nth [OF i j] nth [OF one j]
      by (simp add: nth_mul_rows nth_div_rows nth_lift)
  qed
  show ?thesis using run cells by simp
qed

lemma nat_horizon: "0 \<le> H \<Longrightarrow> nat (int T - H) = T - nat H"
  by (simp add: nat_diff_distrib)

lemma window_sum_forward:
  fixes r :: "real list"
  assumes "0 \<le> H" and "t < length r - nat H"
  shows "sum_list (py_slice r (int t) (int t + H)) = (\<Sum>k = t..<t + nat H. r ! k)"
proof -
  have "nat (int t + H) = t + nat H" using assms(1) by (simp add: nat_add_distrib)
  moreover have "nat (int t + H) \<le> length r" using assms by (simp add: nat_add_distrib)
  ultimately show ?thesis
    using sum_list_py_slice [of "int t" "int t + H" r] assms(1) by simp
qed

lemma length_efficacies [simp]: "length efficacies = 6"
  by (simp add: efficacies_def)

lemma aegwp_lst_species_row:
  assumes "i < 6"
  shows "aegwp_lst H fp years ! Suc i =
           map (\<lambda>x. x * efficacies ! i) (window_sums H fp (nat (int (length years) - H)) ! Suc i)"
  using assms by (simp add: aegwp_lst_def Let_def nth_tl)

lemma window_sum_ones:
  assumes "0 \<le> H" and "t < T - nat H"
  shows "sum_list (py_slice (replicate T (1::real)) (int t) (int t + H)) = of_int H"
proof -
  have "sum_list (py_slice (replicate T (1::real)) (int t) (int t + H))
          = (\<Sum>k = t..<t + nat H. replicate T (1::real) ! k)"
    using window_sum_forward [of H t "replicate T 1"] assms by simp
  also have "\<dots> = (\<Sum>k = t..<t + nat H. 1)"
    using assms by (intro sum.cong) auto
  also have "\<dots> = of_int H"
    using assms(1) by simp
  finally show ?thesis .
qed

lemma ex_rows: "\<forall>r\<in>set ex_profiles. length r = 4"
  by (simp add: ex_profiles_def)

lemma total_is_sumD:
  "total_is_sum M T \<Longrightarrow> t < T \<Longrightarrow> M ! 0 ! t = sum_list (map (\<lambda>i. M ! i ! t) [1..<7])"
  by (simp add: total_is_sum_def list_all_iff)

lemma map_tail_indices:
  assumes "length xs = 6"
  shows "map (\<lambda>i. f ((x # xs) ! i)) [1..<7] = map f xs"
proof -
  have "[1..<7] = map Suc [0..<6]"
    by (simp add: map_Suc_upt)
  then have "map (\<lambda>i. f ((x # xs) ! i)) [1..<7] = map (\<lambda>i. f (xs ! i)) [0..<length xs]"
    using assms by (simp add: comp_def)
  also have "\<dots> = map f (map (\<lambda>i. xs ! i) [0..<length xs])"
    by (simp add: comp_def)
  finally show ?thesis by (simp add: map_nth)
qed

section \<open>Lemmas on GWP* and EGWP*\<close>

lemma length_gwps_raw [simp]: "length (gwps_raw H fp T a) = 7"
  by (simp add: gwps_raw_def)

lemma dFdt_cell:
  "i < length fp \<Longrightarrow> c < T - gwps_dt \<Longrightarrow>
     dFdt fp T ! i ! c = (fp ! i ! (gwps_dt + c) - fp ! i ! c) / real gwps_dt / 1000"
  by (simp add: dFdt_def)

lemma F_av_cell:
  "i < 7 \<Longrightarrow> c < T - gwps_dt \<Longrightarrow>
     F_av fp T ! i ! c =
       sum_list (py_slice (fp ! i) (int (gwps_dt + c) - int gwps_dt + 1) (int (gwps_dt + c) + 1))
         / real gwps_dt / 1000"
  by (simp add: F_av_def)

lemma backward_window:
  fixes r :: "real list"
  assumes "20 \<le> t" and "t < length r"
  shows "sum_list (py_slice r (int t - 20 + 1) (int t + 1)) = (\<Sum>k = t - 19..t. r ! k)"
proof -
  have lo: "nat (int t - 20 + 1) = t - 19" using assms(1) by simp
  have hi: "nat (int t + 1) = Suc t" by simp
  have "sum_list (py_slice r (int t - 20 + 1) (int t + 1))
          = (\<Sum>k = nat (int t - 20 + 1)..<nat (int t + 1). r ! k)"
    by (rule sum_list_py_slice) (use assms in simp_all)
  then show ?thesis by (simp only: lo hi atLeastLessThanSuc_atLeastAtMost)
qed

lemma gwps_raw_cell:
  assumes "i < 7" and "length fp = 7" and "20 \<le> t" and "t < T" and "length (fp ! i) = T"
  shows "gwps_raw H fp T a ! i ! (t - 20) =
     np_mul (Num gwps_g)
       (np_add
          (np_div (Num ((1 - gwps_s) * ((fp ! i ! t - fp ! i ! (t - 20)) / 20 / 1000) * of_int H))
             (Num a))
          (np_div (Num (gwps_s * ((\<Sum>k = t - 19..t. fp ! i ! k) / 20 / 1000))) (Num a)))"
proof -
  have c: "t - 20 < T - gwps_dt" using assms(3,4) by (simp add: gwps_dt_def)
  have d: "dFdt fp T ! i ! (t - 20) = (fp ! i ! t - fp ! i ! (t - 20)) / 20 / 1000"
    using dFdt_cell [of i fp "t - 20" T] c assms(1,2,3) by (simp add: gwps_dt_def)
  have "int (gwps_dt + (t - 20)) = int t" using assms(3) by (simp add: gwps_dt_def)
  then have f: "F_av fp T ! i ! (t - 20) = (\<Sum>k = t - 19..t. fp ! i ! k) / 20 / 1000"
    using F_av_cell [OF assms(1) c, of fp] backward_window [of t "fp ! i"] assms(3,4,5)
    by (simp add: gwps_dt_def)
  have "gwps_raw H fp T a ! i ! (t - 20) =
     np_mul (Num gwps_g)
       (np_add
          (np_div (Num ((1 - gwps_s) * (dFdt fp T ! i ! (t - 20)) * of_int H)) (Num a))
          (np_div (Num (gwps_s * (F_av fp T ! i ! (t - 20)))) (Num a)))"
    using c assms(1) by (simp add: gwps_raw_def)
  then show ?thesis by (simp only: d f)
qed

lemma gwps_prepare_ok:
  assumes "length fp = 7" and "\<forall>r\<in>set fp. length r = T" and "length years = T"
    and "1 \<le> H" and "H \<le> int (length agwph)"
  shows "gwps_prepare H fp years agwph =
           Inr (gwps_raw H fp T (agwph ! nat (H - 1) * 10 ^ 9), [20..<T])"
proof -
  have "length (fp ! 0) = T" using assms(1,2) by simp
  moreover have "py_index agwph (H - 1) = Inr (agwph ! nat (H - 1))"
    using assms(4,5) by (simp add: py_index_def)
  ultimately show ?thesis
    using assms(1,3) by (simp add: gwps_prepare_def Let_def gwps_dt_def)
qed

lemma fancy_index_Inr: "fancy_index xs idx = Inr ys \<Longrightarrow> ys = map (nth xs) idx"
  by (simp add: fancy_index_def split: if_splits)

lemma fancy_index_upt:
  "T \<le> length xs \<Longrightarrow> fancy_index xs [a..<T] = Inr (map (nth xs) [a..<T])"
  by (auto simp: fancy_index_def list_all_iff)

lemma total_update:
  assumes "length m = 7" and "k < n"
  shows "row0_is_sum (m[0 := np_col_sums (tl m) n]) k"
proof -
  obtain x xs where m: "m = x # xs" and xs: "length xs = 6"
    using assms(1) by (cases m) simp_all
  have "np_col_sums xs n ! k = np_sum (map (\<lambda>r. r ! k) xs)"
    using assms(2) by (simp add: np_col_sums_def)
  also have "\<dots> = np_sum (map (\<lambda>i. (np_col_sums xs n # xs) ! i ! k) [1..<7])"
    using map_tail_indices [OF xs, of "\<lambda>r. r ! k" "np_col_sums xs n"] by simp
  finally show ?thesis
    by (simp add: row0_is_sum_def m)
qed

lemma gwps_co2eq_ok:
  assumes "length fp = 7" and "\<forall>r\<in>set fp. length r = T" and "length years = T"
    and "1 \<le> H" and "H \<le> int (length agwph)" and "T \<le> length co2"
  shows "gwps_co2eq H fp tp years co2 agwph =
           Inr ((gwps_raw H fp T (agwph ! nat (H - 1) * 10 ^ 9))
                   [1 := map Num (map (nth co2) [20..<T]),
                    0 := np_col_sums
                           (tl ((gwps_raw H fp T (agwph ! nat (H - 1) * 10 ^ 9))
                                  [1 := map Num (map (nth co2) [20..<T])]))
                           (T - 20)],
                [20..<T])"
  using gwps_prepare_ok [OF assms(1-5)] fancy_index_upt [OF assms(6), of 20] assms(3)
  by (simp add: gwps_co2eq_def Let_def gwps_dt_def)

lemma gwps_prepare_Inr:
  assumes "gwps_prepare H fp years agwph = Inr (raw, yr)"
  shows "length raw = 7 \<and> yr = [20..<length (fp ! 0)]"
  using assms
  by (auto simp: gwps_prepare_def Let_def gwps_dt_def split: if_splits sum.splits)

lemma broadcast_same: "length xs = n \<Longrightarrow> broadcast_to n (Vector xs) = Inr xs"
  by simp

lemma gwps_co2eq_Inr:
  assumes "gwps_co2eq H fp tp years co2 agwph = Inr (out, idx)"
    and "length years = length (fp ! 0)"
  shows "\<exists>raw. length raw = 7 \<and> idx = [20..<length years] \<and>
           out = (raw[1 := map Num (map (nth co2) idx)])
                   [0 := np_col_sums (tl (raw[1 := map Num (map (nth co2) idx)]))
                           (length years - 20)]"
proof -
  obtain raw yr where p: "gwps_prepare H fp years agwph = Inr (raw, yr)"
    using assms(1) by (auto simp: gwps_co2eq_def split: sum.splits)
  have raw: "length raw = 7" and yr: "yr = [20..<length years]"
    using gwps_prepare_Inr [OF p] assms(2) by simp_all
  obtain emis where f: "fancy_index co2 yr = Inr emis"
    using assms(1) p by (auto simp: gwps_co2eq_def split: sum.splits)
  have emis: "emis = map (nth co2) yr"
    using fancy_index_Inr [OF f] .
  have b: "broadcast_to (length years - gwps_dt) (Vector emis) = Inr emis"
    by (rule broadcast_same) (simp add: emis yr gwps_dt_def)
  show ?thesis
    using assms(1) p f b raw yr emis
    by (auto simp: gwps_co2eq_def Let_def gwps_dt_def)
qed

lemma scaled_rows:
  assumes "length m = 7"
  shows "length (hd m # map2 (\<lambda>r e. map (\<lambda>x. np_mul x (Num e)) r) (tl m) efficacies) = 7 \<and>
         (hd m # map2 (\<lambda>r e. map (\<lambda>x. np_mul x (Num e)) r) (tl m) efficacies) ! 1
            = map (\<lambda>x. np_mul x (Num 1)) (m ! 1)"
proof -
  obtain x xs where m: "m = x # xs" and xs: "length xs = 6"
    using assms by (cases m) simp_all
  show ?thesis using xs by (simp add: m efficacies_def)
qed

lemma egwps_co2eq_Inr:
  assumes "egwps_co2eq H fp tp years co2 agwph = Inr (out, idx)"
    and "length years = length (fp ! 0)"
  shows "\<exists>m2. length m2 = 7 \<and> idx = [20..<length years] \<and>
           m2 ! 1 = map Num (map (nth co2) idx) \<and>
           out = m2[0 := np_col_sums (tl m2) (length years - 20)]"
proof -
  obtain raw yr where p: "gwps_prepare H fp years agwph = Inr (raw, yr)"
    using assms(1) by (auto simp: egwps_co2eq_def split: sum.splits)
  have raw: "length raw = 7" and yr: "yr = [20..<length years]"
    using gwps_prepare_Inr [OF p] assms(2) by simp_all
  obtain emis where f: "fancy_index co2 yr = Inr emis"
    using assms(1) p by (auto simp: egwps_co2eq_def split: sum.splits)
  have emis: "emis = map (nth co2) yr"
    using fancy_index_Inr [OF f] .
  have b: "broadcast_to (length years - gwps_dt) (Vector emis) = Inr emis"
    by (rule broadcast_same) (simp add: emis yr gwps_dt_def)
  let ?m1 = "raw[1 := map Num emis]"
  let ?m2 = "hd ?m1 # map2 (\<lambda>r e. map (\<lambda>x. np_mul x (Num e)) r) (tl ?m1) efficacies"
  have m1: "length ?m1 = 7" using raw by simp
  have "?m2 ! 1 = map (\<lambda>x. np_mul x (Num 1)) (?m1 ! 1)" and l2: "length ?m2 = 7"
    using scaled_rows [OF m1] by simp_all
  then have r1: "?m2 ! 1 = map Num emis"
    using raw by (simp add: comp_def)
  have out: "out = ?m2[0 := np_col_sums (tl ?m2) (length years - 20)]" and "idx = yr"
    using assms(1) p f b by (simp_all add: egwps_co2eq_def Let_def gwps_dt_def)
  show ?thesis
    apply (rule exI [of _ ?m2])
    using l2 r1 out \<open>idx = yr\<close> yr emis by simp
qed

lemma egwps_co2eq_ok:
  assumes "length fp = 7" and "\<forall>r\<in>set fp. length r = T" and "length years = T"
    and "1 \<le> H" and "H \<le> int (length agwph)" and "T \<le> length co2"
  shows "\<exists>out. egwps_co2eq H fp tp years co2 agwph = Inr (out, [20..<T])"
  using gwps_prepare_ok [OF assms(1-5)] fancy_index_upt [OF assms(6), of 20] assms(3)
  by (simp add: egwps_co2eq_def Let_def gwps_dt_def)

lemma ex_long_shape:
  "length ex_long_profiles = 7" "\<forall>r\<in>set ex_long_profiles. length r = 22"
  "length ex_long_years = 22" "22 \<le> length ex_long_emissions" "length ex_agwph = 100"
  "length (ex_long_profiles ! 0) = 22"
  by (auto simp: ex_long_profiles_def ex_long_years_def ex_long_emissions_def ex_agwph_def)

section \<open>Lemmas on the loader\<close>

lemma populate_rows:
  "populate fs dir T sps i (rf, dt) = Inr (rf', dt') \<Longrightarrow>
     length rf' = length rf \<and> length dt' = length dt \<and> rf' ! 0 = rf ! 0 \<and> dt' ! 0 = dt ! 0"
proof (induction sps arbitrary: i rf dt)
  case Nil
  then show ?case by simp
next
  case (Cons sp sps)
  from Cons.prems obtain r d where
    "populate fs dir T sps (i + 1) (rf[i + 1 := r], dt[i + 1 := d]) = Inr (rf', dt')"
    by (auto split: sum.splits)
  from Cons.IH [OF this] show ?case by simp
qed

lemma populate_files:
  "populate fs dir T sps i st = Inr st' \<Longrightarrow> sp \<in> set sps \<Longrightarrow>
     (\<exists>a r. loadtxt fs (dir @ rf_name sp) 1 = Inr a \<and> broadcast_to T a = Inr r) \<and>
     (\<exists>b d. loadtxt fs (dir @ dt_name sp) 1 = Inr b \<and> broadcast_to T b = Inr d)"
proof (induction sps arbitrary: i st)
  case Nil
  then show ?case by simp
next
  case (Cons s sps)
  obtain rf dt where st: "st = (rf, dt)" by (cases st)
  from Cons.prems(1) obtain a b r d where
    l: "loadtxt fs (dir @ rf_name s) 1 = Inr a" "loadtxt fs (dir @ dt_name s) 1 = Inr b"
       "broadcast_to T a = Inr r" "broadcast_to T b = Inr d"
    and rest: "populate fs dir T sps (i + 1) (rf[i + 1 := r], dt[i + 1 := d]) = Inr st'"
    unfolding st by (auto split: sum.splits)
  show ?case
  proof (cases "sp = s")
    case True
    then show ?thesis using l by blast
  next
    case False
    then have "sp \<in> set sps" using Cons.prems(2) by simp
    from Cons.IH [OF rest this] show ?thesis .
  qed
qed

lemma loadtxt_Table:
  assumes "fs p = Some (Table rows)" and "loadtxt fs p c = Inr a" and "length rows \<noteq> 1"
  shows "\<exists>xs. a = Vector xs \<and> length xs = length rows"
  using assms by (auto simp: loadtxt_def split: if_splits list.splits)

lemma broadcast_mismatch:
  "length xs \<noteq> n \<Longrightarrow> length xs \<noteq> 1 \<Longrightarrow> broadcast_to n (Vector xs) = Inl ValueError"
  by simp

lemma load_rf_dt_Inr:
  assumes "load_rf_dt fs dir = Inr (rf_arr, dt_arr, years)"
  shows "\<exists>rf dt. loadtxt fs (dir @ ''RF_CO2_taumean_rfmean.txt'') 0 = Inr (Vector years) \<and>
           populate fs dir (length years) emission_species 0
             (replicate 7 (replicate (length years) 0), replicate 7 (replicate (length years) 0))
             = Inr (rf, dt) \<and>
           rf_arr = rf[0 := col_sums rf (length years)] \<and>
           dt_arr = dt[0 := col_sums dt (length years)]"
  using assms
  by (auto simp: load_rf_dt_def Let_def split: sum.splits ndarray.splits)

lemma sum_with_zero_row:
  assumes "length M = 7" and "M ! 0 ! t = 0"
  shows "sum_list (map (\<lambda>r. r ! t) M) = sum_list (map (\<lambda>i. M ! i ! t) [1..<7])"
proof -
  obtain x xs where M: "M = x # xs" and xs: "length xs = 6"
    using assms(1) by (cases M) simp_all
  have "sum_list (map (\<lambda>r. r ! t) M) = x ! t + sum_list (map (\<lambda>r. r ! t) xs)"
    by (simp add: M)
  also have "\<dots> = sum_list (map (\<lambda>r. r ! t) xs)"
    using assms(2) by (simp add: M)
  also have "\<dots> = sum_list (map (\<lambda>i. (x # xs) ! i ! t) [1..<7])"
    using map_tail_indices [OF xs, of "\<lambda>r. r ! t" x] by simp
  finally show ?thesis by (simp add: M)
qed

lemma total_after_sum:
  assumes "length M = 7" and "M ! 0 = replicate T 0"
  shows "total_is_sum (M[0 := col_sums M T]) T"
proof -
  have "(M[0 := col_sums M T]) ! 0 ! t = sum_list (map (\<lambda>i. (M[0 := col_sums M T]) ! i ! t) [1..<7])"
    if t: "t < T" for t
  proof -
    have "(M[0 := col_sums M T]) ! 0 ! t = sum_list (map (\<lambda>r. r ! t) M)"
      using assms(1) t by (simp add: col_sums_def)
    also have "\<dots> = sum_list (map (\<lambda>i. M ! i ! t) [1..<7])"
      using sum_with_zero_row [OF assms(1), of t] assms(2) t by simp
    also have "\<dots> = sum_list (map (\<lambda>i. (M[0 := col_sums M T]) ! i ! t) [1..<7])"
      by (intro arg_cong [where f = sum_list] map_cong refl) simp
    finally show ?thesis .
  qed
  then show ?thesis by (simp add: total_is_sum_def list_all_iff)
qed

lemma ex_fs_loads: "load_rf_dt ex_fs ''data/'' =
     Inr ([[10, 15], [1, 2], [5, 5], [1, 2], [1, 2], [1, 2], [1, 2]],
          [[6, 12], [1, 2], [1, 2], [1, 2], [1, 2], [1, 2], [1, 2]],
          [2000, 2001])"
  by (simp add: load_rf_dt_def ex_fs_def loadtxt_def emission_species_def rf_name_def dt_name_def
      col_sums_def Let_def upt_rec numeral_eq_Suc)

section \<open>Shape of the RFI result\<close>

text \<open>
  C8. For a forcing table with \<open>T\<close> columns (and the year axis of the same length), a
  positive horizon \<open>H < T - 1\<close> and enough CO2 emission entries, \<^verbatim>\<open>rf_co2eq\<close> returns a
  table in which every row has exactly \<open>T - H - 1\<close> columns, together with exactly
  \<open>T - H - 1\<close> year indices.
\<close>

theorem rf_co2eq_output_length:
  assumes "2 \<le> length fp" and "\<forall>r\<in>set fp. length r = T" and "length years = T"
    and "0 < H" and "H < int T - 1" and "T - nat H - 1 \<le> length co2"
  shows "\<exists>out idx. rf_co2eq H fp tp years co2 = Inr (out, idx) \<and> length out = length fp \<and>
           (\<forall>r\<in>set out. length r = T - nat H - 1) \<and> length idx = T - nat H - 1"
proof -
  have r1: "length (fp ! Suc 0) = T"
    using assms(1,2) by simp
  have d: "length (py_slice (fp ! Suc 0) H (- 1)) = T - nat H - 1"
    using assms(4,5) by (simp add: length_py_slice r1 slice_bound_nonneg)
  have e: "length (py_slice_to co2 (int T - H - 1)) = T - nat H - 1"
    using assms(4,5,6) by (simp add: py_slice_to_def slice_bound_nonneg)
  show ?thesis
    using assms d e
    by (simp add: rf_co2eq_def Let_def bcast_mul_def py_range_def div_rows_def lift_def
        length_py_slice slice_bound_nonneg)
qed

theorem rf_co2eq_output_length_witness:
  "\<exists>out idx. rf_co2eq 1 ex_profiles [] ex_years ex_emissions = Inr (out, idx) \<and>
     length out = 7 \<and> (\<forall>r\<in>set out. length r = 2) \<and> length idx = 2"
  using rf_co2eq_output_length [of ex_profiles 4 ex_years 1 ex_emissions "[]"]
  by (auto simp add: ex_profiles_def ex_years_def ex_emissions_def)

section \<open>The unused response table\<close>

text \<open>
  C10. Every converter ignores the response table it does not read: \<^verbatim>\<open>rf_co2eq\<close>,
  \<^verbatim>\<open>gwp_co2eq\<close> and \<^verbatim>\<open>egwp_co2eq\<close> return the same result for any two temperature tables,
  \<^verbatim>\<open>gtp_co2eq\<close> and \<^verbatim>\<open>atr_co2eq\<close> for any two forcing tables.
\<close>

theorem converters_ignore_unused_table:
  "rf_co2eq H fp tp1 years co2 = rf_co2eq H fp tp2 years co2 \<and>
   gwp_co2eq H fp tp1 years co2 = gwp_co2eq H fp tp2 years co2 \<and>
   egwp_co2eq H fp tp1 years co2 = egwp_co2eq H fp tp2 years co2 \<and>
   gtp_co2eq H fp1 tp years co2 = gtp_co2eq H fp2 tp years co2 \<and>
   atr_co2eq H fp1 tp years co2 = atr_co2eq H fp2 tp years co2"
  by (simp add: rf_co2eq_def gwp_co2eq_def egwp_co2eq_def gtp_co2eq_def atr_co2eq_def)

theorem converters_ignore_unused_table_witness:
  "rf_co2eq 1 ex_profiles [] ex_years ex_emissions
     = rf_co2eq 1 ex_profiles ex_profiles ex_years ex_emissions \<and>
   gtp_co2eq 1 [] ex_profiles ex_years ex_emissions
     = gtp_co2eq 1 ex_profiles ex_profiles ex_years ex_emissions"
  using converters_ignore_unused_table
    [of 1 ex_profiles "[]" ex_years ex_emissions ex_profiles "[]" ex_profiles ex_profiles]
  by simp

section \<open>What the RFI converter pairs\<close>

text \<open>
  C2 (amended). \<^verbatim>\<open>rf_co2eq\<close> pairs the forcing ratio of year \<open>H + j\<close> with the CO2 emission
  of year \<open>j\<close>: for every row \<open>i\<close> and every returned year index \<open>j < T - H - 1\<close>, the value
  returned for \<open>j\<close> is \<open>(RF_i[H + j] / RF_CO2[H + j]) * CO2emissions[j]\<close>.
\<close>

theorem rf_co2eq_pairs_horizon_year:
  assumes "2 \<le> length fp" and "\<forall>r\<in>set fp. length r = T" and "length years = T"
    and "0 < H" and "H < int T" and "T - nat H - 1 \<le> length co2"
  shows "\<exists>out. rf_co2eq H fp tp years co2 = Inr (out, [0..<T - nat H - 1]) \<and>
           (\<forall>i<length fp. \<forall>j<T - nat H - 1.
              out ! i ! j =
                np_mul (np_div (Num (fp ! i ! (nat H + j))) (Num (fp ! 1 ! (nat H + j))))
                  (Num (co2 ! j)))"
proof -
  have "0 \<le> H" using assms(4) by simp
  from rf_co2eq_cells [OF assms(1,2,3) this assms(5,6), of tp]
  show ?thesis by blast
qed

theorem rf_co2eq_pairs_horizon_year_witness:
  "\<exists>out. rf_co2eq 1 ex_profiles [] ex_years ex_emissions = Inr (out, [0..<4 - nat 1 - 1]) \<and>
     (\<forall>i<length ex_profiles. \<forall>j<4 - nat 1 - 1.
        out ! i ! j =
          np_mul (np_div (Num (ex_profiles ! i ! (nat 1 + j))) (Num (ex_profiles ! 1 ! (nat 1 + j))))
            (Num (ex_emissions ! j)))"
proof -
  have "2 \<le> length ex_profiles" "length ex_years = 4" "(0::int) < 1" "(1::int) < int 4"
    "4 - nat 1 - 1 \<le> length ex_emissions"
    by (simp_all add: ex_profiles_def ex_years_def ex_emissions_def)
  from rf_co2eq_pairs_horizon_year [OF this(1) ex_rows this(2,3,4,5)]
  show ?thesis .
qed

text \<open>
  The same-year reading fails on the example scenario with \<open>T = 4\<close> and \<open>H = 1\<close>, where
  \<open>t = 1\<close> lies in \<open>[H, T - 2)\<close>: for H2O (row 2) neither the value returned for year index
  1 nor the value computed from the forcing of year 1 (returned for year index 0) is
  \<open>(RF[2][1] / RF[1][1]) * CO2emissions[1]\<close>.
\<close>

theorem rf_co2eq_same_year_counterexample:
  "rf_co2eq 1 ex_profiles ex_profiles ex_years ex_emissions = Inr (ex_rfi_result, [0, 1]) \<and>
   ex_rfi_result ! 2 ! 1 \<noteq> same_year_rfi ex_profiles ex_emissions 2 1 \<and>
   ex_rfi_result ! 2 ! 0 \<noteq> same_year_rfi ex_profiles ex_emissions 2 1"
  by (simp add: rf_co2eq_def Let_def ex_profiles_def ex_years_def ex_emissions_def
      ex_rfi_result_def same_year_rfi_def py_slice_def py_slice_to_def slice_bound_def
      bcast_mul_def div_rows_def lift_def py_range_def upt_rec)

section \<open>The efficacy of H2O in EGWP\<close>

text \<open>
  C6. With every species row constant 1, the scaled and aggregated forcing that
  \<^verbatim>\<open>egwp_co2eq\<close> computes for H2O (row 2) is \<open>1.14 * H\<close> at every valid index; more
  generally row \<open>i + 1\<close> carries the efficacy at position \<open>i\<close> of the vector.
\<close>

theorem egwp_h2o_scaled_agwp:
  assumes "length fp = 7" and "\<forall>i\<in>{1..6}. fp ! i = replicate T 1" and "length years = T"
    and "0 < H" and "t < T - nat H"
  shows "aegwp_lst H fp years ! 2 ! t = 114 / 100 * of_int H \<and>
         (\<forall>i<6. aegwp_lst H fp years ! Suc i ! t = efficacies ! i * of_int H)"
proof -
  have n: "nat (int (length years) - H) = T - nat H"
    using assms(3,4) by (simp add: nat_horizon)
  have row: "aegwp_lst H fp years ! Suc i ! t = efficacies ! i * of_int H" if i: "i < 6" for i
  proof -
    have "fp ! Suc i = replicate T 1" using assms(2) i by simp
    then have "window_sums H fp (T - nat H) ! Suc i ! t = of_int H"
      using window_sums_cell [of "Suc i" t "T - nat H" H fp] window_sum_ones [of H t T] i assms(4,5)
      by simp
    moreover have "length (window_sums H fp (T - nat H) ! Suc i) = T - nat H"
      using i by (simp add: nth_window_sums)
    ultimately show ?thesis
      using aegwp_lst_species_row [OF i, of H fp years] n assms(5) by (simp add: mult.commute)
  qed
  have "aegwp_lst H fp years ! 2 ! t = efficacies ! 1 * of_int H"
    using row [of 1] by (simp add: numeral_2_eq_2)
  then show ?thesis using row by (simp add: efficacies_def)
qed

theorem egwp_h2o_scaled_agwp_witness:
  "aegwp_lst 2 (replicate 7 (replicate 5 1)) [2000, 2001, 2002, 2003, 2004] ! 2 ! 1 = 114 / 100 * of_int 2 \<and>
   aegwp_lst 2 (replicate 7 (replicate 5 1)) [2000, 2001, 2002, 2003, 2004] ! Suc 4 ! 1
     = efficacies ! 4 * of_int 2"
proof -
  have h: "\<forall>i\<in>{1..6}. replicate 7 (replicate 5 (1::real)) ! i = replicate 5 1"
    by simp
  have l: "length (replicate 7 (replicate 5 (1::real))) = 7" "length [2000, 2001, 2002, 2003, 2004::real] = 5"
    "(0::int) < 2" "(1::nat) < 5 - nat 2"
    by simp_all
  note t = egwp_h2o_scaled_agwp [OF l(1) h l(2,3,4)]
  have "(4::nat) < 6" by simp
  from t [THEN conjunct1] t [THEN conjunct2, rule_format, OF this]
  show ?thesis by (rule conjI)
qed

section \<open>The GWP* formula\<close>

text \<open>
  C1. For a forcing table of seven rows and \<open>T\<close> columns, a horizon \<open>H\<close> in 1..100 and an
  AGWP table of 100 entries, \<^verbatim>\<open>gwps_co2eq\<close> succeeds and returns exactly the year indices
  \<open>20, ..., T - 1\<close>. Before row 1 and row 0 are overwritten, the entry of every row \<open>i\<close> for
  every year index \<open>t\<close> in \<open>[20, T)\<close> is
  \<open>g * ((1 - s) * (RF_i[t] - RF_i[t - 20]) / 20 / 1000 * H / AGWP
        + s * ((\<Sum> k = t - 19..t. RF_i[k]) / 20 / 1000) / AGWP)\<close>
  with \<open>s = 0.25\<close>, \<open>g = (1 - exp (- s / (1 - s))) / s\<close> and \<open>AGWP\<close> the entry \<open>H - 1\<close> of the
  table times \<open>10^9\<close>: as numpy evaluates it in general, and as a finite number when that
  entry is not zero. The rows 2 to 6 of the result are these rows.
\<close>

theorem gwps_formula:
  assumes "length fp = 7" and "\<forall>r\<in>set fp. length r = T" and "length years = T"
    and "1 \<le> H" and "H \<le> 100" and "length agwph = 100" and "T \<le> length co2"
  shows "\<exists>raw out.
           gwps_prepare H fp years agwph = Inr (raw, [20..<T]) \<and>
           gwps_co2eq H fp tp years co2 agwph = Inr (out, [20..<T]) \<and>
           (\<forall>i<7. \<forall>t. 20 \<le> t \<and> t < T \<longrightarrow>
              raw ! i ! (t - 20) =
                np_mul (Num gwps_g)
                  (np_add
                     (np_div
                        (Num ((1 - gwps_s) * ((fp ! i ! t - fp ! i ! (t - 20)) / 20 / 1000)
                                * of_int H))
                        (Num (agwph ! nat (H - 1) * 10 ^ 9)))
                     (np_div (Num (gwps_s * ((\<Sum>k = t - 19..t. fp ! i ! k) / 20 / 1000)))
                        (Num (agwph ! nat (H - 1) * 10 ^ 9)))) \<and>
              (agwph ! nat (H - 1) \<noteq> 0 \<longrightarrow>
                 raw ! i ! (t - 20) =
                   Num (gwps_g *
                     ((1 - gwps_s) * ((fp ! i ! t - fp ! i ! (t - 20)) / 20 / 1000) * of_int H
                          / (agwph ! nat (H - 1) * 10 ^ 9)
                      + gwps_s * ((\<Sum>k = t - 19..t. fp ! i ! k) / 20 / 1000)
                          / (agwph ! nat (H - 1) * 10 ^ 9))))) \<and>
           (\<forall>i. 2 \<le> i \<and> i < 7 \<longrightarrow> out ! i = raw ! i) \<and>
           gwps_s = 1 / 4 \<and> gwps_g = (1 - exp (- (1 / 4) / (1 - 1 / 4))) / (1 / 4)"
proof -
  let ?a = "agwph ! nat (H - 1) * 10 ^ 9"
  let ?raw = "gwps_raw H fp T ?a"
  have Hl: "H \<le> int (length agwph)" using assms(5,6) by simp
  have L: "\<And>i. i < 7 \<Longrightarrow> length (fp ! i) = T" using assms(1,2) by simp
  have p: "gwps_prepare H fp years agwph = Inr (?raw, [20..<T])"
    using gwps_prepare_ok [OF assms(1-4) Hl] .
  note r = gwps_co2eq_ok [OF assms(1-4) Hl assms(7), of tp]
  have cell: "?raw ! i ! (t - 20) =
                np_mul (Num gwps_g)
                  (np_add
                     (np_div
                        (Num ((1 - gwps_s) * ((fp ! i ! t - fp ! i ! (t - 20)) / 20 / 1000)
                                * of_int H))
                        (Num ?a))
                     (np_div (Num (gwps_s * ((\<Sum>k = t - 19..t. fp ! i ! k) / 20 / 1000)))
                        (Num ?a)))"
    if "i < 7" "20 \<le> t" "t < T" for i t
    using gwps_raw_cell [OF that(1) assms(1) that(2,3) L [OF that(1)]] .
  have cell': "?raw ! i ! (t - 20) =
                   Num (gwps_g *
                     ((1 - gwps_s) * ((fp ! i ! t - fp ! i ! (t - 20)) / 20 / 1000) * of_int H
                          / ?a
                      + gwps_s * ((\<Sum>k = t - 19..t. fp ! i ! k) / 20 / 1000) / ?a))"
    if "i < 7" "20 \<le> t" "t < T" "agwph ! nat (H - 1) \<noteq> 0" for i t
  proof -
    have "agwph ! nat (H - 1) * 10 ^ 9 \<noteq> 0" using that(4) by simp
    then have d: "\<And>x. np_div (Num x) (Num (agwph ! nat (H - 1) * 10 ^ 9))
        = Num (x / (agwph ! nat (H - 1) * 10 ^ 9))"
      by simp
    show ?thesis
      unfolding cell [OF that(1-3)] by (simp only: d np_add.simps np_mul.simps)
  qed
  have rows: "(?raw[1 := x, 0 := y]) ! i = ?raw ! i" if "2 \<le> i" for i x y
    using that by simp
  have cs: "gwps_s = 1 / 4 \<and> gwps_g = (1 - exp (- (1 / 4) / (1 - 1 / 4))) / (1 / 4)"
    by (simp add: gwps_s_def gwps_g_def)
  show ?thesis
    apply (rule exI [of _ ?raw])
    apply (rule exI)
    apply (intro conjI)
        apply (rule p)
       apply (rule r)
      apply (intro allI impI conjI)
       apply (rule cell; simp)
      apply (rule cell'; simp)
     apply (intro allI impI)
     apply (rule rows; simp)
    apply (rule cs [THEN conjunct1])
    apply (rule cs [THEN conjunct2])
    done
qed

theorem gwps_formula_witness:
  "\<exists>raw out.
     gwps_prepare 100 ex_long_profiles ex_long_years ex_agwph = Inr (raw, [20..<22]) \<and>
     gwps_co2eq 100 ex_long_profiles [] ex_long_years ex_long_emissions ex_agwph
       = Inr (out, [20..<22]) \<and>
     raw ! 2 ! (21 - 20) =
       np_mul (Num gwps_g)
         (np_add
            (np_div
               (Num ((1 - gwps_s) *
                     ((ex_long_profiles ! 2 ! 21 - ex_long_profiles ! 2 ! (21 - 20)) / 20 / 1000)
                       * of_int 100))
               (Num (ex_agwph ! nat (100 - 1) * 10 ^ 9)))
            (np_div (Num (gwps_s * ((\<Sum>k = 21 - 19..21. ex_long_profiles ! 2 ! k) / 20 / 1000)))
               (Num (ex_agwph ! nat (100 - 1) * 10 ^ 9)))) \<and>
     ex_agwph ! nat (100 - 1) \<noteq> 0 \<and>
     raw ! 2 ! (21 - 20) =
       Num (gwps_g *
         ((1 - gwps_s) *
            ((ex_long_profiles ! 2 ! 21 - ex_long_profiles ! 2 ! (21 - 20)) / 20 / 1000)
              * of_int 100 / (ex_agwph ! nat (100 - 1) * 10 ^ 9)
          + gwps_s * ((\<Sum>k = 21 - 19..21. ex_long_profiles ! 2 ! k) / 20 / 1000)
              / (ex_agwph ! nat (100 - 1) * 10 ^ 9))) \<and>
     out ! 2 = raw ! 2"
proof -
  have h: "(1::int) \<le> 100" "(100::int) \<le> 100" by simp_all
  have nz: "ex_agwph ! nat (100 - 1) \<noteq> 0" by (simp add: ex_agwph_def)
  from gwps_formula [OF ex_long_shape(1,2,3) h ex_long_shape(5,4), of "[]"]
  obtain raw out where r:
    "gwps_prepare 100 ex_long_profiles ex_long_years ex_agwph = Inr (raw, [20..<22])"
    "gwps_co2eq 100 ex_long_profiles [] ex_long_years ex_long_emissions ex_agwph
       = Inr (out, [20..<22])"
    "\<forall>i<7. \<forall>t. 20 \<le> t \<and> t < 22 \<longrightarrow>
              raw ! i ! (t - 20) =
                np_mul (Num gwps_g)
                  (np_add
                     (np_div
                        (Num ((1 - gwps_s) * ((ex_long_profiles ! i ! t - ex_long_profiles ! i ! (t - 20)) / 20 / 1000)
                                * of_int 100))
                        (Num (ex_agwph ! nat (100 - 1) * 10 ^ 9)))
                     (np_div (Num (gwps_s * ((\<Sum>k = t - 19..t. ex_long_profiles ! i ! k) / 20 / 1000)))
                        (Num (ex_agwph ! nat (100 - 1) * 10 ^ 9)))) \<and>
              (ex_agwph ! nat (100 - 1) \<noteq> 0 \<longrightarrow>
                 raw ! i ! (t - 20) =
                   Num (gwps_g *
                     ((1 - gwps_s) * ((ex_long_profiles ! i ! t - ex_long_profiles ! i ! (t - 20)) / 20 / 1000) * of_int 100
                          / (ex_agwph ! nat (100 - 1) * 10 ^ 9)
                      + gwps_s * ((\<Sum>k = t - 19..t. ex_long_profiles ! i ! k) / 20 / 1000)
                          / (ex_agwph ! nat (100 - 1) * 10 ^ 9))))"
    "\<forall>i. 2 \<le> i \<and> i < 7 \<longrightarrow> out ! i = raw ! i"
    by blast
  have i: "(2::nat) < 7" and t: "(20::nat) \<le> 21 \<and> (21::nat) < 22" and i2: "(2::nat) \<le> 2 \<and> (2::nat) < 7"
    by simp_all
  note c = r(3) [rule_format, OF i t]
  show ?thesis
    apply (rule exI [of _ raw])
    apply (rule exI [of _ out])
    apply (intro conjI)
         apply (rule r(1))
        apply (rule r(2))
       apply (rule c [THEN conjunct1])
      apply (rule nz)
     apply (rule c [THEN conjunct2, rule_format, OF nz])
    apply (rule r(4) [rule_format, OF i2])
    done
qed

section \<open>The CO2 row and the total row of GWP* and EGWP*\<close>

text \<open>
  C4. Whenever \<^verbatim>\<open>gwps_co2eq\<close> or \<^verbatim>\<open>egwps_co2eq\<close> returns (the year axis having as many
  entries as the forcing table has columns), the year indices are \<open>20, ..., T - 1\<close>, row 1
  of the result is the raw CO2 emission at each returned year index, and row 0 is the sum
  of the rows 1 to 6 of the result, that is, as they stand after the CO2 row is
  overwritten and, for EGWP*, after the efficacy scaling.
\<close>

theorem gwps_co2_row_and_total:
  assumes "length years = length (fp ! 0)"
  shows "(\<forall>out idx. gwps_co2eq H fp tp years co2 agwph = Inr (out, idx) \<longrightarrow>
            idx = [20..<length years] \<and>
            (\<forall>k<length idx. out ! 1 ! k = Num (co2 ! (idx ! k)) \<and> row0_is_sum out k)) \<and>
         (\<forall>out idx. egwps_co2eq H fp tp years co2 agwph = Inr (out, idx) \<longrightarrow>
            idx = [20..<length years] \<and>
            (\<forall>k<length idx. out ! 1 ! k = Num (co2 ! (idx ! k)) \<and> row0_is_sum out k))"
proof (intro conjI allI impI)
  fix out idx
  assume a: "gwps_co2eq H fp tp years co2 agwph = Inr (out, idx)"
  from gwps_co2eq_Inr [OF a assms] obtain raw where raw: "length raw = 7"
    and idx: "idx = [20..<length years]"
    and out: "out = (raw[1 := map Num (map (nth co2) idx)])
                   [0 := np_col_sums (tl (raw[1 := map Num (map (nth co2) idx)]))
                           (length years - 20)]"
    by blast
  show "idx = [20..<length years]" by (rule idx)
  fix k assume k: "k < length idx"
  have kn: "k < length years - 20" using k idx by simp
  show "out ! 1 ! k = Num (co2 ! (idx ! k))"
    using raw k by (simp add: out)
  show "row0_is_sum out k"
    unfolding out by (rule total_update) (use raw kn in simp_all)
next
  fix out idx
  assume a: "egwps_co2eq H fp tp years co2 agwph = Inr (out, idx)"
  from egwps_co2eq_Inr [OF a assms] obtain m2 where m2: "length m2 = 7"
    and idx: "idx = [20..<length years]"
    and r1: "m2 ! 1 = map Num (map (nth co2) idx)"
    and out: "out = m2[0 := np_col_sums (tl m2) (length years - 20)]"
    by blast
  show "idx = [20..<length years]" by (rule idx)
  fix k assume k: "k < length idx"
  have kn: "k < length years - 20" using k idx by simp
  show "out ! 1 ! k = Num (co2 ! (idx ! k))"
    using m2 k r1 by (simp add: out)
  show "row0_is_sum out k"
    unfolding out by (rule total_update) (use m2 kn in simp_all)
qed

theorem gwps_co2_row_and_total_witness:
  "\<exists>out eout.
     gwps_co2eq 100 ex_long_profiles [] ex_long_years ex_long_emissions ex_agwph
       = Inr (out, [20..<22]) \<and>
     egwps_co2eq 100 ex_long_profiles [] ex_long_years ex_long_emissions ex_agwph
       = Inr (eout, [20..<22]) \<and>
     out ! 1 ! 0 = Num (ex_long_emissions ! 20) \<and> row0_is_sum out 0 \<and>
     eout ! 1 ! 0 = Num (ex_long_emissions ! 20) \<and> row0_is_sum eout 0"
proof -
  have h: "(1::int) \<le> 100" "(100::int) \<le> int (length ex_agwph)"
    by (simp_all add: ex_agwph_def)
  have y: "length ex_long_years = length (ex_long_profiles ! 0)"
    using ex_long_shape(3,6) by simp
  obtain out where o: "gwps_co2eq 100 ex_long_profiles [] ex_long_years ex_long_emissions ex_agwph
       = Inr (out, [20..<22])"
    using gwps_co2eq_ok [OF ex_long_shape(1,2,3) h ex_long_shape(4), of "[]"] by blast
  obtain eout where e: "egwps_co2eq 100 ex_long_profiles [] ex_long_years ex_long_emissions ex_agwph
       = Inr (eout, [20..<22])"
    using egwps_co2eq_ok [OF ex_long_shape(1,2,3) h ex_long_shape(4), of "[]"] by blast
  note t = gwps_co2_row_and_total [OF y, of 100 "[]" ex_long_emissions ex_agwph]
  have k: "0 < length [20..<22::nat]" by simp
  have "out ! 1 ! 0 = Num (ex_long_emissions ! ([20..<22] ! 0)) \<and> row0_is_sum out 0"
    using t [THEN conjunct1, rule_format, OF o, THEN conjunct2, rule_format, OF k] .
  moreover have "eout ! 1 ! 0 = Num (ex_long_emissions ! ([20..<22] ! 0)) \<and> row0_is_sum eout 0"
    using t [THEN conjunct2, rule_format, OF e, THEN conjunct2, rule_format, OF k] .
  ultimately show ?thesis using o e by simp
qed

section \<open>The totals of the loaded arrays\<close>

text \<open>
  C5. Whenever \<^verbatim>\<open>load_rf_dt\<close> returns, both arrays have seven rows and row 0 of each is, at
  every time step, the sum of the rows 1 to 6: the code sums all seven rows, and row 0 is
  still zero when the sum is taken.
\<close>

theorem load_rf_dt_total:
  assumes "load_rf_dt fs directory = Inr (rf_arr, dt_arr, years)"
  shows "length rf_arr = 7 \<and> length dt_arr = 7 \<and>
         total_is_sum rf_arr (length years) \<and> total_is_sum dt_arr (length years) \<and>
         (\<forall>t<length years.
            rf_arr ! 0 ! t = (\<Sum>i = 1..6. rf_arr ! i ! t) \<and>
            dt_arr ! 0 ! t = (\<Sum>i = 1..6. dt_arr ! i ! t))"
proof -
  let ?T = "length years"
  from load_rf_dt_Inr [OF assms] obtain rf dt where
    p: "populate fs directory ?T emission_species 0
          (replicate 7 (replicate ?T 0), replicate 7 (replicate ?T 0)) = Inr (rf, dt)"
    and rf: "rf_arr = rf[0 := col_sums rf ?T]" and dt: "dt_arr = dt[0 := col_sums dt ?T]"
    by blast
  from populate_rows [OF p] have l: "length rf = 7" "length dt = 7"
    and z: "rf ! 0 = replicate ?T 0" "dt ! 0 = replicate ?T 0"
    by simp_all
  have tr: "total_is_sum rf_arr ?T" unfolding rf by (rule total_after_sum [OF l(1) z(1)])
  have td: "total_is_sum dt_arr ?T" unfolding dt by (rule total_after_sum [OF l(2) z(2)])
  have s: "sum_list (map f [1..<7]) = (\<Sum>i = 1..6. f i)" for f :: "nat \<Rightarrow> real"
  proof -
    have "{1..6::nat} = set [1..<7]" by auto
    then show ?thesis by (simp add: interv_sum_list_conv_sum_set_nat)
  qed
  have "rf_arr ! 0 ! t = (\<Sum>i = 1..6. rf_arr ! i ! t) \<and> dt_arr ! 0 ! t = (\<Sum>i = 1..6. dt_arr ! i ! t)"
    if "t < ?T" for t
    using total_is_sumD [OF tr that] total_is_sumD [OF td that] by (simp only: s)
  then show ?thesis using tr td l by (simp add: rf dt)
qed

theorem load_rf_dt_total_witness:
  "load_rf_dt ex_fs ''data/'' =
     Inr ([[10, 15], [1, 2], [5, 5], [1, 2], [1, 2], [1, 2], [1, 2]],
          [[6, 12], [1, 2], [1, 2], [1, 2], [1, 2], [1, 2], [1, 2]],
          [2000, 2001]) \<and>
   total_is_sum [[10, 15], [1, 2], [5, 5], [1, 2], [1, 2], [1, 2], [1, 2]]
     (length [2000, 2001 :: real]) \<and>
   total_is_sum [[6, 12], [1, 2], [1, 2], [1, 2], [1, 2], [1, 2], [1, 2]]
     (length [2000, 2001 :: real])"
  using load_rf_dt_total [OF ex_fs_loads] ex_fs_loads by blast

section \<open>Files of different lengths\<close>

text \<open>
  C9 (amended). When some per-species forcing or temperature file has a number of rows
  that differs from the number of rows of the CO2 forcing file and is not one,
  \<^verbatim>\<open>load_rf_dt\<close> fails with an error. The loader has no check of its own: the failure is
  the refusal of numpy to assign a vector of another length to a row.
\<close>

theorem load_rf_dt_detects_row_mismatch:
  assumes "sp \<in> set emission_species"
    and "fs (directory @ ''RF_CO2_taumean_rfmean.txt'') = Some (Table year_rows)"
    and "fs (directory @ rf_name sp) = Some (Table rows) \<or>
         fs (directory @ dt_name sp) = Some (Table rows)"
    and "length rows \<noteq> length year_rows" and "length rows \<noteq> 1"
  shows "\<exists>e. load_rf_dt fs directory = Inl e"
proof (cases "load_rf_dt fs directory")
  case (Inl e)
  then show ?thesis by blast
next
  case (Inr res)
  obtain rf_arr dt_arr years where res: "res = (rf_arr, dt_arr, years)"
    by (cases res)
  from load_rf_dt_Inr [OF Inr [unfolded res]] obtain rf dt where
    y: "loadtxt fs (directory @ ''RF_CO2_taumean_rfmean.txt'') 0 = Inr (Vector years)"
    and p: "populate fs directory (length years) emission_species 0
          (replicate 7 (replicate (length years) 0), replicate 7 (replicate (length years) 0))
          = Inr (rf, dt)"
    by blast
  have T: "length years = length year_rows"
    using y assms(2) by (auto simp: loadtxt_def split: if_splits list.splits)
  from populate_files [OF p assms(1)] obtain a r b d where
    a: "loadtxt fs (directory @ rf_name sp) 1 = Inr a" "broadcast_to (length years) a = Inr r"
    and b: "loadtxt fs (directory @ dt_name sp) 1 = Inr b" "broadcast_to (length years) b = Inr d"
    by blast
  from assms(3) have False
  proof
    assume "fs (directory @ rf_name sp) = Some (Table rows)"
    from loadtxt_Table [OF this a(1) assms(5)] obtain xs where
      "a = Vector xs" "length xs = length rows" by blast
    then show False
      using a(2) broadcast_mismatch [of xs "length years"] assms(4,5) T by simp
  next
    assume "fs (directory @ dt_name sp) = Some (Table rows)"
    from loadtxt_Table [OF this b(1) assms(5)] obtain xs where
      "b = Vector xs" "length xs = length rows" by blast
    then show False
      using b(2) broadcast_mismatch [of xs "length years"] assms(4,5) T by simp
  qed
  then show ?thesis ..
qed

theorem load_rf_dt_detects_row_mismatch_witness:
  "\<exists>e. load_rf_dt ex_bad_fs ''data/'' = Inl e"
  using load_rf_dt_detects_row_mismatch
    [of "''O3''" ex_bad_fs "''data/''" "[[2000, 1], [2001, 2]]"
        "[[2000, 1], [2001, 2], [2002, 3]]"]
  by (simp add: ex_bad_fs_def emission_species_def rf_name_def dt_name_def)

text \<open>
  A file with a single row is read as a scalar and assigned to the whole row. In \<open>ex_fs\<close>
  the H2O forcing file has one row and the CO2 forcing file two, and the loader returns
  arrays in which the H2O forcing is 5 in both years.
\<close>

theorem load_rf_dt_single_row_counterexample:
  "ex_fs ''data/RF_CO2_taumean_rfmean.txt'' = Some (Table [[2000, 1], [2001, 2]]) \<and>
   ex_fs (''data/'' @ rf_name ''H2O'') = Some (Table [[2000, 5]]) \<and>
   load_rf_dt ex_fs ''data/'' =
     Inr ([[10, 15], [1, 2], [5, 5], [1, 2], [1, 2], [1, 2], [1, 2]],
          [[6, 12], [1, 2], [1, 2], [1, 2], [1, 2], [1, 2], [1, 2]],
          [2000, 2001])"
  using ex_fs_loads by (simp add: ex_fs_def rf_name_def emission_species_def)

end
